theory Spec2Isabelle
  imports Complex_Main "HOL-Library.Word" "HOL-Library.AList"
begin

unbundle bit_operations_syntax

section \<open>Bytes, hashes and the buffer writer and reader\<close>

text \<open>
  The blockchain package serializes through \<^verbatim>\<open>@uniqys/serialize\<close> (BufferWriter,
  BufferReader, UInt64, serialize) and \<^verbatim>\<open>@uniqys/signature\<close> (Hash). Neither
  package is among the sources, so the primitives below are written from the
  specification; the classes of \<^verbatim>\<open>block.ts\<close> that call them are
  translated from the source.
\<close>

type_synonym byte = "8 word"

text \<open>A JavaScript \<^verbatim>\<open>Error\<close> carries its message.\<close>

datatype error = Error (message: string)

text \<open>Modelled from the spec: Hash (package signature, not among the sources) is a
  fixed-width digest of 32 bytes that supports equality; a value of \<open>256 word\<close> is
  exactly such a digest, read most significant byte first.\<close>

type_synonym Hash = "256 word"

text \<open>Modelled from the spec: the integers of a header are unsigned 64-bit integers
  (the source types them \<^verbatim>\<open>number\<close> and hands them to UInt64).\<close>

type_synonym UInt64 = "64 word"

text \<open>Modelled from the spec: BufferWriter (package serialize, not among the sources)
  collects the bytes written so far; \<^verbatim>\<open>serialize(x)\<close> runs \<^verbatim>\<open>x.serialize\<close>
  on a fresh writer and returns its buffer.\<close>

type_synonym BufferWriter = "byte list"

definition serialize :: "(BufferWriter \<Rightarrow> BufferWriter) \<Rightarrow> byte list" where
  "serialize ser = ser []"

text \<open>Modelled from the spec: BufferReader (package serialize, not among the sources)
  holds the bytes not yet read; a deserializer returns the value and the reader advanced
  past it, or fails.\<close>

type_synonym BufferReader = "byte list"

type_synonym 'a Deserializer = "BufferReader \<Rightarrow> error + ('a \<times> BufferReader)"

text \<open>Modelled from the spec: \<^verbatim>\<open>consume\<close> of BufferReader takes the next \<open>n\<close>
  bytes. A reader asked for more bytes than are left fails; the sources do not show with
  which message, and nothing below depends on it. \<open>then_read\<close> is the sequencing of
  two reads on one reader, the second not run when the first throws.\<close>

definition consume :: "nat \<Rightarrow> (byte list) Deserializer" where
  "consume n r =
    (if length r < n then Inl (Error ''out of range'') else Inr (take n r, drop n r))"

definition then_read :: "'a Deserializer \<Rightarrow> ('a \<Rightarrow> 'b Deserializer) \<Rightarrow> 'b Deserializer" where
  "then_read d k r = (case d r of Inl e \<Rightarrow> Inl e | Inr (x, r') \<Rightarrow> k x r')"

text \<open>Modelled from the spec: big-endian integers and fixed-width hashes. The \<open>n\<close> low
  bytes of a word, most significant first, and the word that a byte sequence denotes when
  read most significant byte first.\<close>

definition word_bytes_be :: "nat \<Rightarrow> 'a::len word \<Rightarrow> byte list" where
  "word_bytes_be n w = map (\<lambda>i. ucast (drop_bit (8 * i) w)) (rev [0..<n])"

definition bytes_word_be :: "byte list \<Rightarrow> 'a::len word" where
  "bytes_word_be bs = foldl (\<lambda>acc b. push_bit 8 acc OR ucast b) 0 bs"

text \<open>The number a byte sequence denotes in base 256, most significant byte first.\<close>

definition be_value :: "byte list \<Rightarrow> nat" where
  "be_value bs = foldl (\<lambda>acc b. 256 * acc + unat b) 0 bs"

text \<open>Modelled from the spec: \<^verbatim>\<open>UInt64.serialize\<close> and \<^verbatim>\<open>UInt64.deserialize\<close>
  (package serialize, not among the sources): big-endian integers, 8 bytes.\<close>

definition UInt64_serialize :: "UInt64 \<Rightarrow> BufferWriter \<Rightarrow> BufferWriter" where
  "UInt64_serialize n writer = writer @ word_bytes_be 8 n"

definition UInt64_deserialize :: "UInt64 Deserializer" where
  "UInt64_deserialize = then_read (consume 8) (\<lambda>bs r. Inr (bytes_word_be bs, r))"

text \<open>Modelled from the spec: \<^verbatim>\<open>Hash.serialize\<close> and \<^verbatim>\<open>Hash.deserialize\<close>
  (package signature, not among the sources): fixed-width hashes, the 32 bytes of the
  digest.\<close>

definition Hash_serialize :: "Hash \<Rightarrow> BufferWriter \<Rightarrow> BufferWriter" where
  "Hash_serialize h writer = writer @ word_bytes_be 32 h"

definition Hash_deserialize :: "Hash Deserializer" where
  "Hash_deserialize = then_read (consume 32) (\<lambda>bs r. Inr (bytes_word_be bs, r))"

section \<open>Blocks (packages/blockchain/src/block.ts)\<close>

subsection \<open>BlockHeader\<close>

text \<open>
  The constructor of BlockHeader assigns the seven parameter properties and then sets
  \<^verbatim>\<open>this.hash = Hash.fromData(serialize(this))\<close>. The seven properties are the
  record \<open>BlockHeaderFields\<close>; a BlockHeader extends it by the hash. The cryptographic
  hash \<^verbatim>\<open>Hash.fromData\<close> is opaque and is a parameter, \<open>fromData\<close>, of
  everything that constructs a header.
\<close>

record BlockHeaderFields =
  height :: UInt64
  timestamp :: UInt64
  lastBlockHash :: Hash
  transactionRoot :: Hash
  lastBlockConsensusRoot :: Hash
  nextValidatorSetRoot :: Hash
  appStateHash :: Hash

record BlockHeader = BlockHeaderFields +
  hash :: Hash

definition BlockHeader_serialize :: "'z BlockHeaderFields_scheme \<Rightarrow> BufferWriter \<Rightarrow> BufferWriter" where
  "BlockHeader_serialize this writer =
    (let w1 = UInt64_serialize (height this) writer;
         w2 = UInt64_serialize (timestamp this) w1;
         w3 = Hash_serialize (lastBlockHash this) w2;
         w4 = Hash_serialize (transactionRoot this) w3;
         w5 = Hash_serialize (lastBlockConsensusRoot this) w4;
         w6 = Hash_serialize (nextValidatorSetRoot this) w5
     in Hash_serialize (appStateHash this) w6)"

definition new_BlockHeader ::
  "(byte list \<Rightarrow> Hash) \<Rightarrow> UInt64 \<Rightarrow> UInt64 \<Rightarrow> Hash \<Rightarrow> Hash \<Rightarrow> Hash \<Rightarrow> Hash \<Rightarrow> Hash \<Rightarrow> BlockHeader" where
  "new_BlockHeader fromData height' timestamp' lastBlockHash' transactionRoot'
      lastBlockConsensusRoot' nextValidatorSetRoot' appStateHash' =
    \<lparr> height = height', timestamp = timestamp', lastBlockHash = lastBlockHash',
      transactionRoot = transactionRoot', lastBlockConsensusRoot = lastBlockConsensusRoot',
      nextValidatorSetRoot = nextValidatorSetRoot', appStateHash = appStateHash',
      hash = fromData (serialize (BlockHeader_serialize
        \<lparr> height = height', timestamp = timestamp', lastBlockHash = lastBlockHash',
          transactionRoot = transactionRoot', lastBlockConsensusRoot = lastBlockConsensusRoot',
          nextValidatorSetRoot = nextValidatorSetRoot', appStateHash = appStateHash' \<rparr>)) \<rparr>"

definition BlockHeader_deserialize :: "(byte list \<Rightarrow> Hash) \<Rightarrow> BlockHeader Deserializer" where
  "BlockHeader_deserialize fromData =
    then_read UInt64_deserialize (\<lambda>height'.
    then_read UInt64_deserialize (\<lambda>timestamp'.
    then_read Hash_deserialize (\<lambda>lastBlockHash'.
    then_read Hash_deserialize (\<lambda>transactionRoot'.
    then_read Hash_deserialize (\<lambda>lastBlockConsensusRoot'.
    then_read Hash_deserialize (\<lambda>nextValidatorSetRoot'.
    then_read Hash_deserialize (\<lambda>appStateHash' reader.
      Inr (new_BlockHeader fromData height' timestamp' lastBlockHash' transactionRoot'
             lastBlockConsensusRoot' nextValidatorSetRoot' appStateHash', reader))))))))"

subsection \<open>BlockBody\<close>

text \<open>
  TransactionList and Consensus (and ValidatorSet) live in files that are not among the
  sources. Their values are type parameters \<open>'t\<close>, \<open>'c\<close> (and \<open>'v\<close>); their
  \<^verbatim>\<open>hash\<close> properties and their (de)serializers are parameters of the functions that
  use them.

  The body of \<^verbatim>\<open>packages/blockchain/src/block.ts\<close> has two properties. The body of
  the earlier revision of the file (\<^verbatim>\<open>src/unnamed/part_002\<close>) has the same two and
  \<^verbatim>\<open>nextValidatorSet\<close>: the record \<open>BlockBody_p2\<close> extends \<open>BlockBody\<close>.
\<close>

record ('t, 'c) BlockBody =
  transactionList :: 't
  lastBlockConsensus :: 'c

record ('t, 'c, 'v) BlockBody_p2 = "('t, 'c) BlockBody" +
  nextValidatorSet :: 'v

definition BlockBody_serialize ::
  "('t \<Rightarrow> BufferWriter \<Rightarrow> BufferWriter) \<Rightarrow> ('c \<Rightarrow> BufferWriter \<Rightarrow> BufferWriter) \<Rightarrow>
   ('t, 'c) BlockBody \<Rightarrow> BufferWriter \<Rightarrow> BufferWriter" where
  "BlockBody_serialize TransactionList_serialize Consensus_serialize this writer =
    (let w1 = TransactionList_serialize (transactionList this) writer
     in Consensus_serialize (lastBlockConsensus this) w1)"

definition BlockBody_deserialize ::
  "'t Deserializer \<Rightarrow> 'c Deserializer \<Rightarrow> (('t, 'c) BlockBody) Deserializer" where
  "BlockBody_deserialize TransactionList_deserialize Consensus_deserialize =
    then_read TransactionList_deserialize (\<lambda>transactions.
    then_read Consensus_deserialize (\<lambda>consensus reader.
      Inr (\<lparr> transactionList = transactions, lastBlockConsensus = consensus \<rparr>, reader)))"

definition BlockBody_validate ::
  "('t \<Rightarrow> Hash) \<Rightarrow> ('c \<Rightarrow> Hash) \<Rightarrow> ('t, 'c) BlockBody \<Rightarrow> BlockHeader \<Rightarrow> error + unit" where
  "BlockBody_validate TransactionList_hash Consensus_hash this header' =
    (if transactionRoot header' \<noteq> TransactionList_hash (transactionList this)
       then Inl (Error ''invalid transactionRoot'')
     else if lastBlockConsensusRoot header' \<noteq> Consensus_hash (lastBlockConsensus this)
       then Inl (Error ''invalid lastBlockConsensusHash'')
     else Inr ())"

definition BlockBody_p2_serialize ::
  "('t \<Rightarrow> BufferWriter \<Rightarrow> BufferWriter) \<Rightarrow> ('c \<Rightarrow> BufferWriter \<Rightarrow> BufferWriter) \<Rightarrow>
   ('v \<Rightarrow> BufferWriter \<Rightarrow> BufferWriter) \<Rightarrow>
   ('t, 'c, 'v) BlockBody_p2 \<Rightarrow> BufferWriter \<Rightarrow> BufferWriter" where
  "BlockBody_p2_serialize TransactionList_serialize Consensus_serialize ValidatorSet_serialize
      this writer =
    (let w1 = TransactionList_serialize (transactionList this) writer;
         w2 = Consensus_serialize (lastBlockConsensus this) w1
     in ValidatorSet_serialize (nextValidatorSet this) w2)"

definition BlockBody_p2_deserialize ::
  "'t Deserializer \<Rightarrow> 'c Deserializer \<Rightarrow> 'v Deserializer \<Rightarrow>
   (('t, 'c, 'v) BlockBody_p2) Deserializer" where
  "BlockBody_p2_deserialize TransactionList_deserialize Consensus_deserialize
      ValidatorSet_deserialize =
    then_read TransactionList_deserialize (\<lambda>transactions.
    then_read Consensus_deserialize (\<lambda>consensus.
    then_read ValidatorSet_deserialize (\<lambda>validatorSet reader.
      Inr (\<lparr> transactionList = transactions, lastBlockConsensus = consensus,
             nextValidatorSet = validatorSet \<rparr>, reader))))"

subsection \<open>Block\<close>

text \<open>The constructor of Block is the same in both revisions: it keeps the header and
  the body and sets \<^verbatim>\<open>this.hash = header.hash\<close>. The record is polymorphic in the
  body, so that it serves both.\<close>

record 'b Block =
  header :: BlockHeader
  body :: 'b
  blockHash :: Hash

definition new_Block :: "BlockHeader \<Rightarrow> 'b \<Rightarrow> 'b Block" where
  "new_Block header' body' = \<lparr> header = header', body = body', blockHash = hash header' \<rparr>"

definition Block_construct ::
  "(byte list \<Rightarrow> Hash) \<Rightarrow> ('t \<Rightarrow> Hash) \<Rightarrow> ('c \<Rightarrow> Hash) \<Rightarrow>
   UInt64 \<Rightarrow> UInt64 \<Rightarrow> Hash \<Rightarrow> Hash \<Rightarrow> Hash \<Rightarrow> 't \<Rightarrow> 'c \<Rightarrow> (('t, 'c) BlockBody) Block" where
  "Block_construct fromData TransactionList_hash Consensus_hash
      height' timestamp' lastBlockHash' nextValidatorSet' appStateHash' transactions
      lastBlockConsensus' =
    (let body' = \<lparr> transactionList = transactions, lastBlockConsensus = lastBlockConsensus' \<rparr>;
         header' = new_BlockHeader fromData height' timestamp' lastBlockHash'
           (TransactionList_hash (transactionList body'))
           (Consensus_hash (lastBlockConsensus body'))
           nextValidatorSet' appStateHash'
     in new_Block header' body')"

definition Block_deserialize ::
  "(byte list \<Rightarrow> Hash) \<Rightarrow> 't Deserializer \<Rightarrow> 'c Deserializer \<Rightarrow>
   ((('t, 'c) BlockBody) Block) Deserializer" where
  "Block_deserialize fromData TransactionList_deserialize Consensus_deserialize =
    then_read (BlockHeader_deserialize fromData) (\<lambda>header'.
    then_read (BlockBody_deserialize TransactionList_deserialize Consensus_deserialize)
      (\<lambda>body' reader. Inr (new_Block header' body', reader)))"

definition Block_serialize ::
  "('t \<Rightarrow> BufferWriter \<Rightarrow> BufferWriter) \<Rightarrow> ('c \<Rightarrow> BufferWriter \<Rightarrow> BufferWriter) \<Rightarrow>
   (('t, 'c) BlockBody) Block \<Rightarrow> BufferWriter \<Rightarrow> BufferWriter" where
  "Block_serialize TransactionList_serialize Consensus_serialize this writer =
    (let w1 = BlockHeader_serialize (header this) writer
     in BlockBody_serialize TransactionList_serialize Consensus_serialize (body this) w1)"

definition Block_validate ::
  "('t \<Rightarrow> Hash) \<Rightarrow> ('c \<Rightarrow> Hash) \<Rightarrow> (('t, 'c) BlockBody) Block \<Rightarrow> error + unit" where
  "Block_validate TransactionList_hash Consensus_hash this =
    BlockBody_validate TransactionList_hash Consensus_hash (body this) (header this)"

subsection \<open>Block of the earlier revision (src/unnamed/part_002)\<close>

definition Block_p2_construct ::
  "(byte list \<Rightarrow> Hash) \<Rightarrow> ('t \<Rightarrow> Hash) \<Rightarrow> ('c \<Rightarrow> Hash) \<Rightarrow> ('v \<Rightarrow> Hash) \<Rightarrow>
   UInt64 \<Rightarrow> UInt64 \<Rightarrow> Hash \<Rightarrow> Hash \<Rightarrow> 't \<Rightarrow> 'c \<Rightarrow> 'v \<Rightarrow> (('t, 'c, 'v) BlockBody_p2) Block" where
  "Block_p2_construct fromData TransactionList_hash Consensus_hash ValidatorSet_hash
      height' timestamp' lastBlockHash' appStateHash' transactions lastBlockConsensus'
      nextValidatorSet' =
    (let body' = \<lparr> transactionList = transactions, lastBlockConsensus = lastBlockConsensus',
                    nextValidatorSet = nextValidatorSet' \<rparr>;
         header' = new_BlockHeader fromData height' timestamp' lastBlockHash'
           (TransactionList_hash (transactionList body'))
           (Consensus_hash (lastBlockConsensus body'))
           (ValidatorSet_hash (nextValidatorSet body'))
           appStateHash'
     in new_Block header' body')"

definition Block_p2_deserialize ::
  "(byte list \<Rightarrow> Hash) \<Rightarrow> 't Deserializer \<Rightarrow> 'c Deserializer \<Rightarrow> 'v Deserializer \<Rightarrow>
   ((('t, 'c, 'v) BlockBody_p2) Block) Deserializer" where
  "Block_p2_deserialize fromData TransactionList_deserialize Consensus_deserialize
      ValidatorSet_deserialize =
    then_read (BlockHeader_deserialize fromData) (\<lambda>header'.
    then_read (BlockBody_p2_deserialize TransactionList_deserialize Consensus_deserialize
                 ValidatorSet_deserialize)
      (\<lambda>body' reader. Inr (new_Block header' body', reader)))"

definition Block_p2_serialize ::
  "('t \<Rightarrow> BufferWriter \<Rightarrow> BufferWriter) \<Rightarrow> ('c \<Rightarrow> BufferWriter \<Rightarrow> BufferWriter) \<Rightarrow>
   ('v \<Rightarrow> BufferWriter \<Rightarrow> BufferWriter) \<Rightarrow>
   (('t, 'c, 'v) BlockBody_p2) Block \<Rightarrow> BufferWriter \<Rightarrow> BufferWriter" where
  "Block_p2_serialize TransactionList_serialize Consensus_serialize ValidatorSet_serialize
      this writer =
    (let w1 = BlockHeader_serialize (header this) writer
     in BlockBody_p2_serialize TransactionList_serialize Consensus_serialize
          ValidatorSet_serialize (body this) w1)"

definition Block_p2_validate ::
  "('t \<Rightarrow> Hash) \<Rightarrow> ('c \<Rightarrow> Hash) \<Rightarrow> ('v \<Rightarrow> Hash) \<Rightarrow>
   (('t, 'c, 'v) BlockBody_p2) Block \<Rightarrow> error + unit" where
  "Block_p2_validate TransactionList_hash Consensus_hash ValidatorSet_hash this =
    (if transactionRoot (header this) \<noteq> TransactionList_hash (transactionList (body this))
       then Inl (Error ''invalid transactionRoot'')
     else if lastBlockConsensusRoot (header this) \<noteq> Consensus_hash (lastBlockConsensus (body this))
       then Inl (Error ''invalid lastBlockConsensusHash'')
     else if nextValidatorSetRoot (header this) \<noteq> ValidatorSet_hash (nextValidatorSet (body this))
       then Inl (Error ''invalid nextValidatorSetRoot'')
     else Inr ())"

subsection \<open>Serializable values\<close>

text \<open>
  What the (de)serializers of TransactionList, Consensus and ValidatorSet, which are
  parameters here, have to satisfy for a body to be read back: a serializer appends its
  bytes to the writer, and the deserializer reads the value back from the front of a
  buffer and leaves the rest of the buffer to the next reader.
\<close>

definition Serializable :: "('a \<Rightarrow> BufferWriter \<Rightarrow> BufferWriter) \<Rightarrow> 'a Deserializer \<Rightarrow> bool" where
  "Serializable ser de =
    ((\<forall>x writer. ser x writer = writer @ serialize (ser x)) \<and>
     (\<forall>x rest. de (serialize (ser x) @ rest) = Inr (x, rest)))"

section \<open>Consensus timeouts (packages/chain-core/src/consensus-engine/timeout.ts)\<close>

subsection \<open>JavaScript numbers\<close>

text \<open>
  The options and the timeouts are JavaScript numbers, and the methods compute with
  \<^verbatim>\<open>*\<close> and \<^verbatim>\<open>Math.pow\<close> on them. A round is a natural number (the engine counts
  rounds from 0).
\<close>


text \<open>Rounding to the nearest integer, ties to the even one.\<close>

definition round_half_even :: "real \<Rightarrow> int" where
  "round_half_even q =
    (let f = \<lfloor>q\<rfloor> in
     if q - of_int f < 1 / 2 then f
     else if 1 / 2 < q - of_int f then f + 1
     else if even f then f else f + 1)"






subsection \<open>TimeoutOptions and ConsensusTimeout\<close>














section \<open>The node coordinator (packages/chain-core/src/node.ts)\<close>

text \<open>
  The collaborators of Node (network, protocol, synchronizer, consensus engine, executor,
  blockchain) are not among the sources. What Node does to them is recorded as the list
  of the calls it makes, in order; a call is taken to return normally, and what a
  collaborator does in turn (a callback it fires) is outside the model. The errors that
  Node emits as \<^verbatim>\<open>'error'\<close> on its event emitter, which is what a listener registered
  with \<^verbatim>\<open>onError\<close> receives, are recorded as a list as well.
\<close>

type_synonym PeerId = string

text \<open>A protocol is the handle of the connection to one peer; Node reads its
  \<^verbatim>\<open>peerId\<close>.\<close>

datatype Protocol = Protocol (protocol_peerId: PeerId)

text \<open>\<^verbatim>\<open>Message.Hello\<close>: the height and the genesis hash that a peer reports.\<close>

datatype Hello = Hello (hello_height: UInt64) (hello_genesis: Hash)

text \<open>\<^verbatim>\<open>new RemoteNode(peerId, protocol, height)\<close>.\<close>

datatype RemoteNode = RemoteNode (node_peerId: PeerId) (node_protocol: Protocol) (node_height: UInt64)

text \<open>Modelled from the spec: RemoteNodeSet (\<^verbatim>\<open>remote-node.ts\<close>, not among the sources)
  tracks the peers' protocol handles and reported heights; Node looks a node up by its
  peer id. It is a list of entries keyed by peer id, in the order of insertion, as a
  JavaScript Map is.\<close>

type_synonym RemoteNodeSet = "(PeerId \<times> RemoteNode) list"

text \<open>Modelled from the spec: the methods of RemoteNodeSet that Node calls
  (\<^verbatim>\<open>add\<close>, \<^verbatim>\<open>delete\<close>, \<^verbatim>\<open>get\<close>, \<^verbatim>\<open>nodes\<close>) and its size. Adding a node
  under a peer id that is present replaces the entry in place; deleting removes it.\<close>

definition RemoteNodeSet_add :: "RemoteNode \<Rightarrow> RemoteNodeSet \<Rightarrow> RemoteNodeSet" where
  "RemoteNodeSet_add node s = AList.update (node_peerId node) node s"

definition RemoteNodeSet_delete :: "RemoteNode \<Rightarrow> RemoteNodeSet \<Rightarrow> RemoteNodeSet" where
  "RemoteNodeSet_delete node s = AList.delete (node_peerId node) s"

definition RemoteNodeSet_get :: "PeerId \<Rightarrow> RemoteNodeSet \<Rightarrow> RemoteNode option" where
  "RemoteNodeSet_get peer s = map_of s peer"

definition RemoteNodeSet_nodes :: "RemoteNodeSet \<Rightarrow> RemoteNode list" where
  "RemoteNodeSet_nodes s = map snd s"

definition RemoteNodeSet_size :: "RemoteNodeSet \<Rightarrow> nat" where
  "RemoteNodeSet_size s = length s"

datatype Call =
    Protocol_end Protocol
  | Protocol_onEnd Protocol RemoteNode
  | Network_stop
  | Network_dropPeer PeerId
  | ConsensusEngine_stop
  | Synchronizer_stop
  | Synchronizer_newNode
  | Executor_stop
  | Blockchain_close

text \<open>\<open>Protocol_onEnd p node\<close> registers, on \<open>p\<close>, the callback that deletes \<open>node\<close>
  from the remote-node set. No statement of \<^verbatim>\<open>node.ts\<close> makes the call
  \<open>Blockchain_close\<close>; the constructor is there for the shutdown sequence of the
  specification.\<close>

record Node =
  genesisBlockHash :: Hash
  remoteNode :: RemoteNodeSet
  calls :: "Call list"
  errorStream :: "error list"

definition call :: "Call \<Rightarrow> Node \<Rightarrow> Node" where
  "call c this = this\<lparr> calls := calls this @ [c] \<rparr>"

definition event_emit_error :: "error \<Rightarrow> Node \<Rightarrow> Node" where
  "event_emit_error err this = this\<lparr> errorStream := errorStream this @ [err] \<rparr>"

text \<open>The listener that the constructor registers with \<^verbatim>\<open>network.onError\<close>.\<close>

definition network_onError :: "error \<Rightarrow> Node \<Rightarrow> Node" where
  "network_onError err this =
    (if message err = ''underlying socket has been closed'' then this
     else event_emit_error err this)"

text \<open>The listener that \<^verbatim>\<open>handshake\<close> registers with \<^verbatim>\<open>protocol.onError\<close>.\<close>

definition protocol_onError :: "error \<Rightarrow> Node \<Rightarrow> Node" where
  "protocol_onError err this =
    (if message err = ''underlying socket has been closed'' then this
     else event_emit_error err this)"

definition dropPeer :: "PeerId \<Rightarrow> Node \<Rightarrow> Node" where
  "dropPeer peer this = call (Network_dropPeer peer) this"

definition addRemoteNode :: "RemoteNode \<Rightarrow> Node \<Rightarrow> Node" where
  "addRemoteNode node this =
    (let this1 = this\<lparr> remoteNode := RemoteNodeSet_add node (remoteNode this) \<rparr>
     in call Synchronizer_newNode this1)"

definition dropRemoteNode :: "RemoteNode \<Rightarrow> Node \<Rightarrow> Node" where
  "dropRemoteNode node this =
    (let this1 = this\<lparr> remoteNode := RemoteNodeSet_delete node (remoteNode this) \<rparr>
     in dropPeer (node_peerId node) this1)"

definition hello :: "Hello \<Rightarrow> Protocol \<Rightarrow> Node \<Rightarrow> Node" where
  "hello msg protocol this =
    (if hello_genesis msg = genesisBlockHash this then
       (let node = RemoteNode (protocol_peerId protocol) protocol (hello_height msg);
            this1 = addRemoteNode node this
        in call (Protocol_onEnd protocol node) this1)
     else dropPeer (protocol_peerId protocol) this)"

definition stop :: "Node \<Rightarrow> Node" where
  "stop this =
    (let this1 = foldl (\<lambda>s node. call (Protocol_end (node_protocol node)) s) this
                   (RemoteNodeSet_nodes (remoteNode this));
         this2 = call Network_stop this1;
         this3 = call ConsensusEngine_stop this2;
         this4 = call Synchronizer_stop this3
     in call Executor_stop this4)"

text \<open>The calls that a run of a method added to the record of calls.\<close>

definition calls_made :: "Node \<Rightarrow> Node \<Rightarrow> Call list" where
  "calls_made before after = drop (length (calls before)) (calls after)"

text \<open>The shutdown sequence as the specification words it (close protocol handles, stop
  engine, stop synchronizer, stop executor, close store), to compare with \<open>stop\<close>.\<close>

definition stop_sequence_spec :: "Node \<Rightarrow> Call list" where
  "stop_sequence_spec this =
    map (\<lambda>node. Protocol_end (node_protocol node)) (RemoteNodeSet_nodes (remoteNode this))
      @ [ConsensusEngine_stop, Synchronizer_stop, Executor_stop, Blockchain_close]"

section \<open>A sample node\<close>

text \<open>A node on the chain whose genesis block has hash 7, with one registered peer that
  reported height 5, and nothing called or emitted yet.\<close>

definition example_node :: Node where
  "example_node =
    \<lparr> genesisBlockHash = 7,
      remoteNode = [(''peerA'', RemoteNode ''peerA'' (Protocol ''peerA'') 5)],
      calls = [], errorStream = [] \<rparr>"

section \<open>Lemmas about the byte encodings and the reader\<close>

subsection \<open>Big-endian bytes\<close>

lemma length_word_bytes_be: "length (word_bytes_be m w) = m"
  by (simp add: word_bytes_be_def)

lemma word_bytes_be_Suc:
  "word_bytes_be (Suc m) w = ucast (drop_bit (8 * m) w) # word_bytes_be m w"
  by (simp add: word_bytes_be_def)

lemma push_byte_step:
  fixes w :: "'a::len word" and acc :: "'a word"
  shows "push_bit (8 * m) (push_bit 8 acc OR ucast (ucast (drop_bit (8 * m) w) :: byte)) OR take_bit (8 * m) w
      = push_bit (8 * Suc m) acc OR take_bit (8 * Suc m) w"
proof (rule bit_word_eqI)
  fix k assume "k < LENGTH('a)"
  have a: "8 * m + 8 = 8 + 8 * m" by simp
  show "bit (push_bit (8 * m) (push_bit 8 acc OR ucast (ucast (drop_bit (8 * m) w) :: byte)) OR take_bit (8 * m) w) k
      = bit (push_bit (8 * Suc m) acc OR take_bit (8 * Suc m) w) k"
    using \<open>k < LENGTH('a)\<close>
    by (auto simp add: bit_simps a)
qed

lemma foldl_word_bytes_be:
  fixes w :: "'a::len word" and acc :: "'a word"
  shows "foldl (\<lambda>acc b. push_bit 8 acc OR ucast b) acc (word_bytes_be m w)
     = push_bit (8 * m) acc OR take_bit (8 * m) w"
proof (induction m arbitrary: acc)
  case 0
  show ?case by (simp add: word_bytes_be_def)
next
  case (Suc m)
  show ?case
    using Suc.IH push_byte_step[of m acc w] by (simp add: word_bytes_be_Suc)
qed

lemma bytes_word_be_word_bytes_be:
  fixes w :: "'a::len word"
  assumes "LENGTH('a) \<le> 8 * m"
  shows "bytes_word_be (word_bytes_be m w) = w"
  using assms foldl_word_bytes_be[of 0 m w]
  by (simp add: bytes_word_be_def take_bit_word_eq_self)

lemma be_value_foldl:
  fixes w :: "'a::len word"
  shows "foldl (\<lambda>acc b. 256 * acc + unat (b::byte)) acc (word_bytes_be m w)
     = 256 ^ m * acc + unat w mod 2 ^ (8 * m)"
proof (induction m arbitrary: acc)
  case 0
  show ?case by (simp add: word_bytes_be_def)
next
  case (Suc m)
  have byte: "unat (ucast (drop_bit (8 * m) w) :: byte) = unat w div 2 ^ (8 * m) mod 256"
  proof -
    have "unat (ucast (drop_bit (8 * m) w) :: byte) = take_bit 8 (drop_bit (8 * m) (unat w))"
      by (simp add: unsigned_ucast_eq unat_drop_bit_eq)
    also have "\<dots> = unat w div 2 ^ (8 * m) mod 256"
      by (simp add: drop_bit_eq_div take_bit_eq_mod)
    finally show ?thesis .
  qed
  have p8: "(256::nat) ^ m = 2 ^ (8 * m)"
    by (simp add: power_mult)
  have p8': "(2::nat) ^ (8 * Suc m) = 2 ^ (8 * m) * 256"
    by (simp add: power_add)
  have split: "unat w mod 2 ^ (8 * Suc m)
      = 2 ^ (8 * m) * (unat w div 2 ^ (8 * m) mod 256) + unat w mod 2 ^ (8 * m)"
    unfolding p8' by (rule mod_mult2_eq)
  have "foldl (\<lambda>acc b. 256 * acc + unat (b::byte)) acc (word_bytes_be (Suc m) w)
      = 256 ^ m * (256 * acc + unat w div 2 ^ (8 * m) mod 256) + unat w mod 2 ^ (8 * m)"
    using Suc.IH[of "256 * acc + unat (ucast (drop_bit (8 * m) w) :: byte)"]
    by (simp only: word_bytes_be_Suc foldl_Cons byte)
  also have "\<dots> = 256 ^ Suc m * acc
      + (2 ^ (8 * m) * (unat w div 2 ^ (8 * m) mod 256) + unat w mod 2 ^ (8 * m))"
    by (simp only: p8 [symmetric] power_Suc distrib_left mult.assoc add.assoc mult.left_commute [of "256 ^ m" 256])
  finally show ?case
    by (simp only: split)
qed

lemma be_value_word_bytes_be:
  fixes w :: "'a::len word"
  assumes "LENGTH('a) \<le> 8 * m"
  shows "be_value (word_bytes_be m w) = unat w"
proof -
  have "unat w < 2 ^ LENGTH('a)" by (rule unsigned_less)
  also have "(2::nat) ^ LENGTH('a) \<le> 2 ^ (8 * m)" using assms by (simp add: power_increasing)
  finally have "unat w mod 2 ^ (8 * m) = unat w" by simp
  then show ?thesis
    using be_value_foldl[of 0 m w] by (simp add: be_value_def)
qed

subsection \<open>Reading back what was written\<close>

lemma consume_append: "length xs = n \<Longrightarrow> consume n (xs @ rest) = Inr (xs, rest)"
  by (simp add: consume_def)

lemma UInt64_deserialize_bytes:
  "UInt64_deserialize (word_bytes_be 8 n @ rest) = Inr (n, rest)"
  by (simp add: UInt64_deserialize_def then_read_def consume_append length_word_bytes_be
      bytes_word_be_word_bytes_be)

lemma Hash_deserialize_bytes:
  "Hash_deserialize (word_bytes_be 32 h @ rest) = Inr (h, rest)"
  by (simp add: Hash_deserialize_def then_read_def consume_append length_word_bytes_be
      bytes_word_be_word_bytes_be)

lemma BlockHeader_serialize_bytes:
  "BlockHeader_serialize this writer =
     writer @ word_bytes_be 8 (height this) @ word_bytes_be 8 (timestamp this)
       @ word_bytes_be 32 (lastBlockHash this) @ word_bytes_be 32 (transactionRoot this)
       @ word_bytes_be 32 (lastBlockConsensusRoot this)
       @ word_bytes_be 32 (nextValidatorSetRoot this) @ word_bytes_be 32 (appStateHash this)"
  by (simp add: BlockHeader_serialize_def UInt64_serialize_def Hash_serialize_def)

lemma BlockHeader_serialize_append:
  "BlockHeader_serialize this writer = writer @ serialize (BlockHeader_serialize this)"
  by (simp add: BlockHeader_serialize_bytes serialize_def)

lemma BlockHeader_deserialize_bytes:
  "BlockHeader_deserialize fromData
     (word_bytes_be 8 n @ word_bytes_be 8 ts @ word_bytes_be 32 a @ word_bytes_be 32 b
        @ word_bytes_be 32 c @ word_bytes_be 32 d @ word_bytes_be 32 e @ rest)
   = Inr (new_BlockHeader fromData n ts a b c d e, rest)"
  unfolding BlockHeader_deserialize_def
  by (simp add: then_read_def UInt64_deserialize_bytes Hash_deserialize_bytes)

lemma BlockHeader_roundtrip:
  "BlockHeader_deserialize fromData
     (serialize (BlockHeader_serialize (new_BlockHeader fromData n ts a b c d e)) @ rest)
   = Inr (new_BlockHeader fromData n ts a b c d e, rest)"
  using BlockHeader_deserialize_bytes[of fromData n ts a b c d e rest]
  by (simp add: BlockHeader_serialize_bytes serialize_def new_BlockHeader_def)

text \<open>The byte order on a value: 258 is written as \<open>00 00 00 00 00 00 01 02\<close> and
  read back from it; seven bytes are too few to read.\<close>

lemma UInt64_serialize_258:
  "UInt64_serialize 258 [] = [0, 0, 0, 0, 0, 0, 1, 2]
   \<and> UInt64_deserialize [0, 0, 0, 0, 0, 0, 1, 2, 9] = Inr (258, [9])
   \<and> UInt64_deserialize [0, 0, 0, 0, 0, 0, 1] = Inl (Error ''out of range'')"
  by code_simp

lemma Serializable_UInt64: "Serializable UInt64_serialize UInt64_deserialize"
  by (simp add: Serializable_def UInt64_serialize_def serialize_def UInt64_deserialize_bytes)

lemma BlockBody_roundtrip:
  assumes "Serializable tser tde" and "Serializable cser cde"
  shows "BlockBody_deserialize tde cde (serialize (BlockBody_serialize tser cser b) @ rest) = Inr (b, rest)"
proof -
  have t: "\<And>x r. tde (serialize (tser x) @ r) = Inr (x, r)"
    using assms(1) by (simp add: Serializable_def)
  have c: "\<And>x w. cser x w = w @ serialize (cser x)" "\<And>x r. cde (serialize (cser x) @ r) = Inr (x, r)"
    using assms(2) by (simp_all add: Serializable_def)
  have "serialize (BlockBody_serialize tser cser b)
      = serialize (tser (transactionList b)) @ serialize (cser (lastBlockConsensus b))"
    using c(1)[of "lastBlockConsensus b" "tser (transactionList b) []"]
    by (simp add: BlockBody_serialize_def serialize_def)
  then show ?thesis
    by (simp add: BlockBody_deserialize_def then_read_def t c(2))
qed

lemma BlockBody_serialize_append:
  assumes "Serializable tser tde" and "Serializable cser cde"
  shows "BlockBody_serialize tser cser b w = w @ serialize (BlockBody_serialize tser cser b)"
proof -
  have t: "\<And>x w. tser x w = w @ serialize (tser x)"
    using assms(1) by (simp add: Serializable_def)
  have c: "\<And>x w. cser x w = w @ serialize (cser x)"
    using assms(2) by (simp add: Serializable_def)
  show ?thesis
    using t[of "transactionList b" w]
      c[of "lastBlockConsensus b" "tser (transactionList b) w"]
      c[of "lastBlockConsensus b" "tser (transactionList b) []"]
    by (simp add: BlockBody_serialize_def serialize_def)
qed

lemma BlockBody_p2_roundtrip:
  assumes "Serializable tser tde" and "Serializable cser cde" and "Serializable vser vde"
  shows "BlockBody_p2_deserialize tde cde vde
           (serialize (BlockBody_p2_serialize tser cser vser b) @ rest) = Inr (b, rest)"
proof -
  have t: "\<And>x r. tde (serialize (tser x) @ r) = Inr (x, r)"
    using assms(1) by (simp add: Serializable_def)
  have c: "\<And>x w. cser x w = w @ serialize (cser x)" "\<And>x r. cde (serialize (cser x) @ r) = Inr (x, r)"
    using assms(2) by (simp_all add: Serializable_def)
  have v: "\<And>x w. vser x w = w @ serialize (vser x)" "\<And>x r. vde (serialize (vser x) @ r) = Inr (x, r)"
    using assms(3) by (simp_all add: Serializable_def)
  have "serialize (BlockBody_p2_serialize tser cser vser b)
      = serialize (tser (transactionList b)) @ serialize (cser (lastBlockConsensus b))
          @ serialize (vser (nextValidatorSet b))"
    using c(1)[of "lastBlockConsensus b" "tser (transactionList b) []"]
      v(1)[of "nextValidatorSet b" "cser (lastBlockConsensus b) (tser (transactionList b) [])"]
    by (simp add: BlockBody_p2_serialize_def serialize_def)
  then show ?thesis
    by (simp add: BlockBody_p2_deserialize_def then_read_def t c(2) v(2))
qed

lemma BlockBody_p2_serialize_append:
  assumes "Serializable tser tde" and "Serializable cser cde" and "Serializable vser vde"
  shows "BlockBody_p2_serialize tser cser vser b w
       = w @ serialize (BlockBody_p2_serialize tser cser vser b)"
proof -
  have t: "\<And>x w. tser x w = w @ serialize (tser x)"
    using assms(1) by (simp add: Serializable_def)
  have c: "\<And>x w. cser x w = w @ serialize (cser x)"
    using assms(2) by (simp add: Serializable_def)
  have v: "\<And>x w. vser x w = w @ serialize (vser x)"
    using assms(3) by (simp add: Serializable_def)
  show ?thesis
    using t[of "transactionList b" w]
      c[of "lastBlockConsensus b" "tser (transactionList b) w"]
      c[of "lastBlockConsensus b" "tser (transactionList b) []"]
      v[of "nextValidatorSet b" "cser (lastBlockConsensus b) (tser (transactionList b) w)"]
      v[of "nextValidatorSet b" "cser (lastBlockConsensus b) (tser (transactionList b) [])"]
    by (simp add: BlockBody_p2_serialize_def serialize_def)
qed

lemma Block_roundtrip:
  assumes "Serializable tser tde" and "Serializable cser cde"
  shows "Block_deserialize fromData tde cde
           (serialize (Block_serialize tser cser
              (new_Block (new_BlockHeader fromData n ts a b c d e) bd)) @ rest)
         = Inr (new_Block (new_BlockHeader fromData n ts a b c d e) bd, rest)"
proof -
  let ?h = "new_BlockHeader fromData n ts a b c d e"
  have "serialize (Block_serialize tser cser (new_Block ?h bd))
      = serialize (BlockHeader_serialize ?h) @ serialize (BlockBody_serialize tser cser bd)"
    using BlockBody_serialize_append[OF assms, of bd "BlockHeader_serialize ?h []"]
    by (simp add: Block_serialize_def new_Block_def serialize_def)
  then show ?thesis
    by (simp add: Block_deserialize_def then_read_def BlockHeader_roundtrip
        BlockBody_roundtrip[OF assms])
qed

lemma Block_p2_roundtrip:
  assumes "Serializable tser tde" and "Serializable cser cde" and "Serializable vser vde"
  shows "Block_p2_deserialize fromData tde cde vde
           (serialize (Block_p2_serialize tser cser vser
              (new_Block (new_BlockHeader fromData n ts a b c d e) bd)) @ rest)
         = Inr (new_Block (new_BlockHeader fromData n ts a b c d e) bd, rest)"
proof -
  let ?h = "new_BlockHeader fromData n ts a b c d e"
  have "serialize (Block_p2_serialize tser cser vser (new_Block ?h bd))
      = serialize (BlockHeader_serialize ?h) @ serialize (BlockBody_p2_serialize tser cser vser bd)"
    using BlockBody_p2_serialize_append[OF assms, of bd "BlockHeader_serialize ?h []"]
    by (simp add: Block_p2_serialize_def new_Block_def serialize_def)
  then show ?thesis
    by (simp add: Block_p2_deserialize_def then_read_def BlockHeader_roundtrip
        BlockBody_p2_roundtrip[OF assms])
qed

section \<open>Lemmas about rounding to doubles\<close>



lemma round_half_even_of_int: "round_half_even (of_int k) = k"
  by (simp add: round_half_even_def)










subsection \<open>Rounding at given values\<close>










subsection \<open>Products in the normal range\<close>





subsection \<open>A value that is no double, and overflow\<close>





subsection \<open>The default timeouts\<close>










section \<open>Lemmas about the record of calls\<close>

lemma calls_call: "calls (call c this) = calls this @ [c]"
  by (simp add: call_def)

lemma calls_foldl_Protocol_end:
  "calls (foldl (\<lambda>s node. call (Protocol_end (node_protocol node)) s) this ns)
     = calls this @ map (\<lambda>node. Protocol_end (node_protocol node)) ns"
  by (induction ns arbitrary: this) (simp_all add: calls_call)

section \<open>Properties of blocks\<close>

text \<open>
  C1, as the code has it. In the revision whose body carries \<^verbatim>\<open>nextValidatorSet\<close>
  (\<^verbatim>\<open>src/unnamed/part_002\<close>), \<^verbatim>\<open>Block.validate\<close> succeeds exactly when the
  three roots of the header equal the hashes of the body's transaction list, consensus
  and next validator set; otherwise it throws for the first root that differs, in that
  order, with the messages \<^verbatim>\<open>invalid transactionRoot\<close>,
  \<^verbatim>\<open>invalid lastBlockConsensusHash\<close> and \<^verbatim>\<open>invalid nextValidatorSetRoot\<close>.
  In \<^verbatim>\<open>packages/blockchain/src/block.ts\<close>, \<^verbatim>\<open>Block.validate\<close> is
  \<^verbatim>\<open>BlockBody.validate\<close> against the block's header; it succeeds exactly when the
  first two roots agree and throws the first two messages likewise. The body of that
  revision has no next validator set, and \<open>nextValidatorSetRoot\<close> is not checked.
\<close>

theorem C1_validate_checked_roots:
  "(Block_p2_validate th ch vh b = Inr ()) =
      (transactionRoot (header b) = th (transactionList (body b))
       \<and> lastBlockConsensusRoot (header b) = ch (lastBlockConsensus (body b))
       \<and> nextValidatorSetRoot (header b) = vh (nextValidatorSet (body b)))
   \<and> (Block_p2_validate th ch vh b = Inl (Error ''invalid transactionRoot'')) =
      (transactionRoot (header b) \<noteq> th (transactionList (body b)))
   \<and> (Block_p2_validate th ch vh b = Inl (Error ''invalid lastBlockConsensusHash'')) =
      (transactionRoot (header b) = th (transactionList (body b))
       \<and> lastBlockConsensusRoot (header b) \<noteq> ch (lastBlockConsensus (body b)))
   \<and> (Block_p2_validate th ch vh b = Inl (Error ''invalid nextValidatorSetRoot'')) =
      (transactionRoot (header b) = th (transactionList (body b))
       \<and> lastBlockConsensusRoot (header b) = ch (lastBlockConsensus (body b))
       \<and> nextValidatorSetRoot (header b) \<noteq> vh (nextValidatorSet (body b)))
   \<and> Block_validate th ch b' = BlockBody_validate th ch (body b') (header b')
   \<and> (Block_validate th ch b' = Inr ()) =
      (transactionRoot (header b') = th (transactionList (body b'))
       \<and> lastBlockConsensusRoot (header b') = ch (lastBlockConsensus (body b')))
   \<and> (Block_validate th ch b' = Inl (Error ''invalid transactionRoot'')) =
      (transactionRoot (header b') \<noteq> th (transactionList (body b')))
   \<and> (Block_validate th ch b' = Inl (Error ''invalid lastBlockConsensusHash'')) =
      (transactionRoot (header b') = th (transactionList (body b'))
       \<and> lastBlockConsensusRoot (header b') \<noteq> ch (lastBlockConsensus (body b')))"
  by (simp add: Block_p2_validate_def Block_validate_def BlockBody_validate_def)

text \<open>
  C1, as the claim words it, fails for \<^verbatim>\<open>BlockBody.validate\<close> of
  \<^verbatim>\<open>packages/blockchain/src/block.ts\<close>: two blocks with the same body whose headers
  differ in \<open>nextValidatorSetRoot\<close> (7 and 8) both pass validation, so success does
  not depend on a third equality between that root and anything in the body.
\<close>

theorem C1_validate_ignores_nextValidatorSetRoot:
  "Block_validate (\<lambda>t. t) (\<lambda>c. c)
      (new_Block (new_BlockHeader bytes_word_be 1 0 0 5 6 7 0)
         \<lparr> transactionList = 5, lastBlockConsensus = 6 \<rparr>) = Inr ()
   \<and> Block_validate (\<lambda>t. t) (\<lambda>c. c)
      (new_Block (new_BlockHeader bytes_word_be 1 0 0 5 6 8 0)
         \<lparr> transactionList = 5, lastBlockConsensus = 6 \<rparr>) = Inr ()
   \<and> nextValidatorSetRoot (header (new_Block (new_BlockHeader bytes_word_be 1 0 0 5 6 7 0)
         \<lparr> transactionList = 5 :: Hash, lastBlockConsensus = 6 :: Hash \<rparr>))
     \<noteq> nextValidatorSetRoot (header (new_Block (new_BlockHeader bytes_word_be 1 0 0 5 6 8 0)
         \<lparr> transactionList = 5 :: Hash, lastBlockConsensus = 6 :: Hash \<rparr>))"
  by (simp add: Block_validate_def BlockBody_validate_def new_Block_def new_BlockHeader_def)

text \<open>
  C2. Reading back the serialization of a header gives the same header, field by field
  and with the same hash, and consumes all the bytes; hashing the serialization of the
  header again gives its hash. Likewise reading back the serialization of a block gives
  the same block, in both revisions, provided the parts of the body (transaction list,
  consensus, validator set), whose (de)serializers are not among the sources, are
  themselves read back as written. A header is any value of the constructor.
\<close>

theorem C2_serialization_roundtrip:
  assumes "Serializable tser tde" and "Serializable cser cde" and "Serializable vser vde"
  shows "(let h = new_BlockHeader fromData n ts a b c d e in
      BlockHeader_deserialize fromData (serialize (BlockHeader_serialize h)) = Inr (h, [])
      \<and> fromData (serialize (BlockHeader_serialize h)) = hash h
      \<and> Block_deserialize fromData tde cde
           (serialize (Block_serialize tser cser (new_Block h bd))) = Inr (new_Block h bd, [])
      \<and> Block_p2_deserialize fromData tde cde vde
           (serialize (Block_p2_serialize tser cser vser (new_Block h bd2)))
           = Inr (new_Block h bd2, []))"
proof -
  let ?h = "new_BlockHeader fromData n ts a b c d e"
  have 1: "BlockHeader_deserialize fromData (serialize (BlockHeader_serialize ?h)) = Inr (?h, [])"
    using BlockHeader_roundtrip[of fromData n ts a b c d e "[]"] by simp
  have 2: "fromData (serialize (BlockHeader_serialize ?h)) = hash ?h"
    by (simp add: new_BlockHeader_def BlockHeader_serialize_bytes serialize_def)
  have 3: "Block_deserialize fromData tde cde
      (serialize (Block_serialize tser cser (new_Block ?h bd))) = Inr (new_Block ?h bd, [])"
    using Block_roundtrip[OF assms(1,2), of fromData n ts a b c d e bd "[]"] by simp
  have 4: "Block_p2_deserialize fromData tde cde vde
      (serialize (Block_p2_serialize tser cser vser (new_Block ?h bd2))) = Inr (new_Block ?h bd2, [])"
    using Block_p2_roundtrip[OF assms, of fromData n ts a b c d e bd2 "[]"] by simp
  show ?thesis
    unfolding Let_def using 1 2 3 4 by (intro conjI)
qed

text \<open>
  The hypotheses of C2 hold where the parts of the body are unsigned 64-bit integers
  written by \<open>UInt64_serialize\<close>, at a header with fields 1 to 7.
\<close>

theorem C2_serialization_roundtrip_witness:
  "Serializable UInt64_serialize UInt64_deserialize
   \<and> (let h = new_BlockHeader bytes_word_be 1 2 3 4 5 6 7 in
      BlockHeader_deserialize bytes_word_be (serialize (BlockHeader_serialize h)) = Inr (h, [])
      \<and> bytes_word_be (serialize (BlockHeader_serialize h)) = hash h
      \<and> Block_deserialize bytes_word_be UInt64_deserialize UInt64_deserialize
           (serialize (Block_serialize UInt64_serialize UInt64_serialize
              (new_Block h \<lparr> transactionList = 8, lastBlockConsensus = 9 \<rparr>)))
           = Inr (new_Block h \<lparr> transactionList = 8, lastBlockConsensus = 9 \<rparr>, [])
      \<and> Block_p2_deserialize bytes_word_be UInt64_deserialize UInt64_deserialize UInt64_deserialize
           (serialize (Block_p2_serialize UInt64_serialize UInt64_serialize UInt64_serialize
              (new_Block h \<lparr> transactionList = 8, lastBlockConsensus = 9, nextValidatorSet = 10 \<rparr>)))
           = Inr (new_Block h \<lparr> transactionList = 8, lastBlockConsensus = 9, nextValidatorSet = 10 \<rparr>, []))"
  by (rule conjI [OF Serializable_UInt64
        C2_serialization_roundtrip [OF Serializable_UInt64 Serializable_UInt64 Serializable_UInt64]])

text \<open>
  C3. The serialization of a header is 176 bytes, with nothing after them: the height
  as a big-endian unsigned 64-bit integer in bytes 0 to 7, the timestamp likewise in
  bytes 8 to 15, then the 32 bytes of each of lastBlockHash, transactionRoot,
  lastBlockConsensusRoot, nextValidatorSetRoot and appStateHash, in this order (every
  hash is written as 32 bytes). On any writer, \<^verbatim>\<open>serialize\<close> appends exactly these bytes. The hash of the header is
  \<^verbatim>\<open>Hash.fromData\<close> of exactly these bytes.
\<close>

theorem C3_header_canonical_bytes:
  "(let h = new_BlockHeader fromData n ts a b c d e;
        bs = serialize (BlockHeader_serialize h)
    in length bs = 8 + 8 + 5 * 32
       \<and> be_value (take 8 bs) = unat (height h)
       \<and> be_value (take 8 (drop 8 bs)) = unat (timestamp h)
       \<and> take 32 (drop 16 bs) = serialize (Hash_serialize (lastBlockHash h))
       \<and> take 32 (drop 48 bs) = serialize (Hash_serialize (transactionRoot h))
       \<and> take 32 (drop 80 bs) = serialize (Hash_serialize (lastBlockConsensusRoot h))
       \<and> take 32 (drop 112 bs) = serialize (Hash_serialize (nextValidatorSetRoot h))
       \<and> drop 144 bs = serialize (Hash_serialize (appStateHash h))
       \<and> length (serialize (Hash_serialize x)) = 32
       \<and> BlockHeader_serialize h writer = writer @ bs
       \<and> hash h = fromData bs)"
proof -
  let ?h = "new_BlockHeader fromData n ts a b c d e"
  let ?bs = "serialize (BlockHeader_serialize ?h)"
  have bs: "?bs = word_bytes_be 8 n @ word_bytes_be 8 ts @ word_bytes_be 32 a
      @ word_bytes_be 32 b @ word_bytes_be 32 c @ word_bytes_be 32 d @ word_bytes_be 32 e"
    by (simp add: serialize_def BlockHeader_serialize_bytes new_BlockHeader_def)
  have f: "height ?h = n" "timestamp ?h = ts" "lastBlockHash ?h = a" "transactionRoot ?h = b"
    "lastBlockConsensusRoot ?h = c" "nextValidatorSetRoot ?h = d" "appStateHash ?h = e"
    by (simp_all add: new_BlockHeader_def)
  have hs: "\<And>x. serialize (Hash_serialize x) = word_bytes_be 32 x"
    by (simp add: serialize_def Hash_serialize_def)
  have 1: "length ?bs = 8 + 8 + 5 * 32"
    by (simp add: bs length_word_bytes_be)
  have 2: "be_value (take 8 ?bs) = unat (height ?h)"
    by (simp add: bs f length_word_bytes_be be_value_word_bytes_be)
  have 3: "be_value (take 8 (drop 8 ?bs)) = unat (timestamp ?h)"
    by (simp add: bs f length_word_bytes_be be_value_word_bytes_be)
  have 4: "take 32 (drop 16 ?bs) = serialize (Hash_serialize (lastBlockHash ?h))"
    by (simp add: bs f hs length_word_bytes_be)
  have 5: "take 32 (drop 48 ?bs) = serialize (Hash_serialize (transactionRoot ?h))"
    by (simp add: bs f hs length_word_bytes_be)
  have 6: "take 32 (drop 80 ?bs) = serialize (Hash_serialize (lastBlockConsensusRoot ?h))"
    by (simp add: bs f hs length_word_bytes_be)
  have 7: "take 32 (drop 112 ?bs) = serialize (Hash_serialize (nextValidatorSetRoot ?h))"
    by (simp add: bs f hs length_word_bytes_be)
  have 8: "drop 144 ?bs = serialize (Hash_serialize (appStateHash ?h))"
    by (simp add: bs f hs length_word_bytes_be)
  have 9: "length (serialize (Hash_serialize x)) = 32"
    by (simp add: hs length_word_bytes_be)
  have 10: "BlockHeader_serialize ?h writer = writer @ ?bs"
    by (rule BlockHeader_serialize_append)
  have 11: "hash ?h = fromData ?bs"
    by (simp add: new_BlockHeader_def BlockHeader_serialize_bytes serialize_def)
  show ?thesis
    unfolding Let_def using 1 2 3 4 5 6 7 8 9 10 11 by (intro conjI)
qed

text \<open>
  C9. The block that \<^verbatim>\<open>Block.construct\<close> returns passes \<^verbatim>\<open>validate\<close>, for all
  arguments, in both revisions: the roots of its header are the hashes of its own body.
\<close>

theorem C9_constructed_block_validates:
  "Block_validate th ch (Block_construct fromData th ch n ts lbh nvs ash txs lbc) = Inr ()
   \<and> Block_p2_validate th ch vh (Block_p2_construct fromData th ch vh n ts lbh ash txs lbc vs) = Inr ()"
  by (simp add: Block_validate_def BlockBody_validate_def Block_construct_def
      Block_p2_validate_def Block_p2_construct_def new_Block_def new_BlockHeader_def)

text \<open>
  C10. The hash of a block is the hash of its header: whatever the bodies, two blocks made
  from the same header have the same hash. The constructor is the only way to make a
  Block, and it is the same in both revisions of the file (the body is any value).
\<close>

theorem C10_block_hash_is_header_hash:
  "blockHash (new_Block h b) = hash h \<and> blockHash (new_Block h b1) = blockHash (new_Block h b2)"
  by (simp add: new_Block_def)

section \<open>Properties of the consensus timeouts\<close>







section \<open>Properties of the node coordinator\<close>

text \<open>
  C6. On a Hello message: if its genesis hash equals the hash of the local genesis block,
  the remote-node set afterwards holds, under the peer's id, a node with the peer's
  protocol handle and the height the message reported; if the genesis hash differs, the
  remote-node set is unchanged (and so is its size) and the one call made is
  \<^verbatim>\<open>network.dropPeer\<close> for that peer.
\<close>

theorem C6_hello:
  "(hello_genesis msg = genesisBlockHash this \<longrightarrow>
      RemoteNodeSet_get (protocol_peerId p) (remoteNode (hello msg p this))
        = Some (RemoteNode (protocol_peerId p) p (hello_height msg)))
   \<and> (hello_genesis msg \<noteq> genesisBlockHash this \<longrightarrow>
      remoteNode (hello msg p this) = remoteNode this
      \<and> RemoteNodeSet_size (remoteNode (hello msg p this)) = RemoteNodeSet_size (remoteNode this)
      \<and> calls_made this (hello msg p this) = [Network_dropPeer (protocol_peerId p)])"
  by (simp add: hello_def addRemoteNode_def dropPeer_def call_def calls_made_def
      RemoteNodeSet_get_def RemoteNodeSet_add_def update_conv' Let_def)

text \<open>
  Both cases of C6 at the sample node (genesis hash 7): a Hello with genesis hash 7
  from peerB registers it with height 12; a Hello with genesis hash 8 drops peerB and
  leaves the set at its one node.
\<close>

theorem C6_hello_witness:
  "hello_genesis (Hello 12 7) = genesisBlockHash example_node
   \<and> RemoteNodeSet_get ''peerB'' (remoteNode (hello (Hello 12 7) (Protocol ''peerB'') example_node))
        = Some (RemoteNode ''peerB'' (Protocol ''peerB'') 12)
   \<and> hello_genesis (Hello 12 8) \<noteq> genesisBlockHash example_node
   \<and> remoteNode (hello (Hello 12 8) (Protocol ''peerB'') example_node) = remoteNode example_node
   \<and> RemoteNodeSet_size (remoteNode (hello (Hello 12 8) (Protocol ''peerB'') example_node)) = 1
   \<and> calls_made example_node (hello (Hello 12 8) (Protocol ''peerB'') example_node)
        = [Network_dropPeer ''peerB'']"
proof -
  have a: "hello_genesis (Hello 12 7) = genesisBlockHash example_node"
    by (simp add: example_node_def)
  have b: "hello_genesis (Hello 12 8) \<noteq> genesisBlockHash example_node"
    by (simp add: example_node_def)
  have s: "RemoteNodeSet_size (remoteNode example_node) = 1"
    by (simp add: example_node_def RemoteNodeSet_size_def)
  show ?thesis
    using a b s C6_hello[of "Hello 12 7" example_node "Protocol ''peerB''"]
      C6_hello[of "Hello 12 8" example_node "Protocol ''peerB''"]
    by simp
qed

text \<open>
  C7, as the code has it. \<^verbatim>\<open>stop()\<close> calls, in exactly this order:
  \<^verbatim>\<open>protocol.end()\<close> for every remote node in the order of the set, then
  \<^verbatim>\<open>network.stop()\<close>, \<^verbatim>\<open>consensusEngine.stop()\<close>, \<^verbatim>\<open>synchronizer.stop()\<close> and
  \<^verbatim>\<open>executor.stop()\<close>. It makes no call that closes the blockchain store.
\<close>

theorem C7_stop_sequence:
  "calls_made this (stop this) =
     map (\<lambda>node. Protocol_end (node_protocol node)) (RemoteNodeSet_nodes (remoteNode this))
       @ [Network_stop, ConsensusEngine_stop, Synchronizer_stop, Executor_stop]
   \<and> Blockchain_close \<notin> set (calls_made this (stop this))"
proof -
  have "calls (stop this) = calls this
      @ map (\<lambda>node. Protocol_end (node_protocol node)) (RemoteNodeSet_nodes (remoteNode this))
      @ [Network_stop, ConsensusEngine_stop, Synchronizer_stop, Executor_stop]"
    by (simp add: stop_def Let_def calls_call calls_foldl_Protocol_end)
  then have "calls_made this (stop this) =
     map (\<lambda>node. Protocol_end (node_protocol node)) (RemoteNodeSet_nodes (remoteNode this))
       @ [Network_stop, ConsensusEngine_stop, Synchronizer_stop, Executor_stop]"
    by (simp add: calls_made_def)
  then show ?thesis by auto
qed

text \<open>
  C7, as the claim words it, fails: at the sample node the calls of \<^verbatim>\<open>stop()\<close>
  have \<^verbatim>\<open>network.stop()\<close> between the protocol handles and the engine and end with
  the executor, while the sequence of the claim has no network step and ends by closing
  the store.
\<close>

theorem C7_stop_differs_from_spec_sequence:
  "calls_made example_node (stop example_node)
     = [Protocol_end (Protocol ''peerA''), Network_stop, ConsensusEngine_stop,
        Synchronizer_stop, Executor_stop]
   \<and> stop_sequence_spec example_node
     = [Protocol_end (Protocol ''peerA''), ConsensusEngine_stop, Synchronizer_stop,
        Executor_stop, Blockchain_close]
   \<and> calls_made example_node (stop example_node) \<noteq> stop_sequence_spec example_node"
  by (simp add: calls_made_def stop_def stop_sequence_spec_def call_def example_node_def
      RemoteNodeSet_nodes_def Let_def)

text \<open>
  C8. An error from the network or from a peer protocol whose message is exactly
  \<^verbatim>\<open>underlying socket has been closed\<close> leaves the node as it was: nothing is emitted
  on the error stream. Every other error from those two sources is emitted on it.
\<close>

theorem C8_socket_closed_swallowed:
  "(message err = ''underlying socket has been closed'' \<longrightarrow>
      network_onError err this = this \<and> protocol_onError err this = this)
   \<and> (message err \<noteq> ''underlying socket has been closed'' \<longrightarrow>
      errorStream (network_onError err this) = errorStream this @ [err]
      \<and> errorStream (protocol_onError err this) = errorStream this @ [err])"
  by (simp add: network_onError_def protocol_onError_def event_emit_error_def)

text \<open>
  Both cases of C8 at the sample node, whose error stream is empty: the socket-closed
  error leaves it empty, the error \<^verbatim>\<open>connection reset\<close> is emitted.
\<close>

theorem C8_socket_closed_swallowed_witness:
  "message (Error ''underlying socket has been closed'') = ''underlying socket has been closed''
   \<and> errorStream (network_onError (Error ''underlying socket has been closed'') example_node) = []
   \<and> errorStream (protocol_onError (Error ''underlying socket has been closed'') example_node) = []
   \<and> message (Error ''connection reset'') \<noteq> ''underlying socket has been closed''
   \<and> errorStream (network_onError (Error ''connection reset'') example_node)
       = [Error ''connection reset'']
   \<and> errorStream (protocol_onError (Error ''connection reset'') example_node)
       = [Error ''connection reset'']"
proof -
  have e: "errorStream example_node = []"
    by (simp add: example_node_def)
  show ?thesis
    using e C8_socket_closed_swallowed[of "Error ''underlying socket has been closed''" example_node]
      C8_socket_closed_swallowed[of "Error ''connection reset''" example_node]
    by simp
qed

end
